theory Spec2Isabelle
  imports Main
begin

section \<open>The publishing script \<open>publish_juliaxbt_to_marketplace.py\<close>\<close>

text \<open>
  The script has one function with control flow, \<open>main\<close> (lines 280-379). It talks to
  the JuliaOS backend through the \<open>juliaos\<close> package, which is not part of the script:
  the backend is therefore a parameter of the model (a record of operations over a
  world state), and \<open>main\<close> is a function from a backend and a world to what a run
  leaves behind: the exit code, the backend calls in order with their outcomes, the
  printed lines, and the final world.
\<close>

subsection \<open>Data: blueprints, states, exceptions\<close>

text \<open>
  Values of the configuration dictionaries (lines 43-111). The script never reads
  them: they are handed to the backend as they are. A float literal is kept as the
  text written in the source.
\<close>

datatype pyval =
    PStr string
  | PInt int
  | PFloat string
  | PBool bool
  | PList "pyval list"

record tool_blueprint =
  tool_name :: string
  tool_config :: "(string \<times> pyval) list"

record strategy_blueprint =
  strategy_name :: string
  strategy_config :: "(string \<times> pyval) list"

record trigger_config =
  trigger_type :: string
  trigger_params :: "(string \<times> pyval) list"

record agent_blueprint =
  tools :: "tool_blueprint list"
  strategy :: strategy_blueprint
  trigger :: trigger_config

text \<open>\<open>juliaos.AgentState\<close>; the script names only \<open>RUNNING\<close> (line 327).\<close>

datatype agent_state = CREATED | RUNNING | PAUSED | DELETED

text \<open>
  What a backend operation may raise. Both handlers of \<open>main\<close> are
  \<open>except Exception\<close> (lines 300 and 371), so the model covers the instances of
  \<open>Exception\<close>; the script does not tell them apart. The first five names are the
  taxonomy of the specification, \<open>OtherException\<close> is any other instance, with its
  text.
\<close>

datatype exn =
    ConnectionError
  | NotFoundError
  | ConflictError
  | ValidationError
  | InvalidTransitionError
  | OtherException string

text \<open>
  The dictionary returned by \<open>agent.get_info()\<close>. The script reads three keys with
  \<open>.get(key, default)\<close> (lines 333-335), so each key may be absent.
\<close>

record agent_info =
  info_state :: "agent_state option"
  info_tools :: "string list option"
  info_strategy_name :: "string option"

text \<open>The module-level constants that \<open>main\<close> reads (lines 19-113).\<close>

record config =
  host :: string
  agent_id :: string
  agent_name :: string
  agent_description :: string
  blueprint :: agent_blueprint

subsection \<open>The backend, as the script uses it\<close>

text \<open>
  One field for each call the script makes: \<open>juliaos.JuliaOSConnection(HOST)\<close> entered
  by the \<open>with\<close> statement (line 290) and left at the end of the block,
  \<open>Agent.load\<close> (296), \<open>delete\<close> (298), \<open>conn.list_agents\<close> (305), \<open>Agent.create\<close>
  (316-322), \<open>set_state\<close> (327) and \<open>get_info\<close> (332). \<open>'w\<close> is the state of the
  world (the remote service and the network), \<open>'h\<close> an agent handle, \<open>'s\<close> an entry
  of the agent list. An operation returns its outcome and the world after it. The
  connection object itself carries no data that the script reads, so it is part of
  the world. Leaving the \<open>with\<close> block closes the connection; closing is taken not
  to raise and not to suppress an exception in flight.
\<close>

record ('w, 'h, 's) backend =
  connect :: "string \<Rightarrow> 'w \<Rightarrow> exn option \<times> 'w"
  close :: "'w \<Rightarrow> 'w"
  load :: "string \<Rightarrow> 'w \<Rightarrow> (exn + 'h) \<times> 'w"
  delete :: "'h \<Rightarrow> 'w \<Rightarrow> exn option \<times> 'w"
  list_agents :: "'w \<Rightarrow> (exn + 's list) \<times> 'w"
  create :: "agent_blueprint \<Rightarrow> string \<Rightarrow> string \<Rightarrow> string \<Rightarrow> 'w \<Rightarrow> (exn + 'h) \<times> 'w"
  set_state :: "'h \<Rightarrow> agent_state \<Rightarrow> 'w \<Rightarrow> exn option \<times> 'w"
  get_info :: "'h \<Rightarrow> 'w \<Rightarrow> (exn + agent_info) \<times> 'w"

text \<open>A backend call of a run, with its arguments and its outcome.\<close>

datatype ('h, 's) event =
    EConnect string "exn option"
  | ELoad string "exn + 'h"
  | EDelete 'h "exn option"
  | EListAgents "exn + 's list"
  | ECreate agent_blueprint string string string "exn + 'h"
  | ESetState 'h agent_state "exn option"
  | EGetInfo 'h "exn + agent_info"
  | EClose

text \<open>
  The printed lines, one constructor for each \<open>print\<close> of \<open>main\<close>, with the values
  that the line interpolates at run time. The time stamp of line 284 and the
  constants of \<open>MARKETPLACE_METADATA\<close> (lines 347-350) are not carried.
\<close>

datatype 's msg =
    MsgBanner                     \<comment> \<open>line 282\<close>
  | MsgRule                       \<comment> \<open>line 283\<close>
  | MsgStarted                    \<comment> \<open>line 284\<close>
  | MsgBlank                      \<comment> \<open>lines 285, 343\<close>
  | MsgConnecting                 \<comment> \<open>line 289\<close>
  | MsgConnected string           \<comment> \<open>line 291\<close>
  | MsgChecking string            \<comment> \<open>line 295\<close>
  | MsgExistsDeleting string      \<comment> \<open>line 297\<close>
  | MsgDeleted                    \<comment> \<open>line 299\<close>
  | MsgNoExisting string          \<comment> \<open>line 301\<close>
  | MsgCurrentAgents              \<comment> \<open>line 304\<close>
  | MsgAgentLine 's               \<comment> \<open>line 307\<close>
  | MsgCreating                   \<comment> \<open>line 309\<close>
  | MsgId string                  \<comment> \<open>line 310\<close>
  | MsgName string                \<comment> \<open>line 311\<close>
  | MsgTools nat                  \<comment> \<open>line 312\<close>
  | MsgStrategy string            \<comment> \<open>line 313\<close>
  | MsgCreated                    \<comment> \<open>line 323\<close>
  | MsgSettingRunning             \<comment> \<open>line 326\<close>
  | MsgActive                     \<comment> \<open>line 328\<close>
  | MsgVerification               \<comment> \<open>line 331\<close>
  | MsgInfoState "agent_state option"  \<comment> \<open>line 333; \<open>None\<close> prints as \<open>unknown\<close>\<close>
  | MsgInfoTools nat              \<comment> \<open>line 334\<close>
  | MsgInfoStrategy string        \<comment> \<open>line 335\<close>
  | MsgMarketplace                \<comment> \<open>line 339\<close>
  | MsgReadyForMarketplace        \<comment> \<open>line 340\<close>
  | MsgMetadataPrepared           \<comment> \<open>line 341\<close>
  | MsgMarketplaceTodo            \<comment> \<open>line 342\<close>
  | MsgMetadataSummary            \<comment> \<open>line 346\<close>
  | MsgCategory                   \<comment> \<open>line 347\<close>
  | MsgTags                       \<comment> \<open>line 348\<close>
  | MsgPricing                    \<comment> \<open>line 349\<close>
  | MsgDocumentation              \<comment> \<open>line 350\<close>
  | MsgSetupComplete              \<comment> \<open>line 352\<close>
  | MsgCanTest                    \<comment> \<open>line 353\<close>
  | MsgWebhook string string      \<comment> \<open>line 354\<close>
  | MsgSample                     \<comment> \<open>line 357\<close>
  | MsgSampleOpen                 \<comment> \<open>line 364\<close>
  | MsgSampleEntry string string  \<comment> \<open>line 366\<close>
  | MsgSampleClose                \<comment> \<open>line 367\<close>
  | MsgError                      \<comment> \<open>line 372\<close>
  | MsgErrorText exn              \<comment> \<open>line 373\<close>
  | MsgTroubleshooting            \<comment> \<open>line 374\<close>
  | MsgHintBackend                \<comment> \<open>line 375\<close>
  | MsgHintEnv                    \<comment> \<open>line 376\<close>
  | MsgHintTools                  \<comment> \<open>line 377\<close>
  | MsgHintNetwork string         \<comment> \<open>line 378\<close>

text \<open>What a run of \<open>main\<close> leaves behind.\<close>

record ('w, 'h, 's) run =
  exit_code :: int
  trace :: "('h, 's) event list"
  printed :: "'s msg list"
  world :: 'w

subsection \<open>\<open>main\<close>\<close>

text \<open>
  Lines 294-301: the inner \<open>try\<close>. \<open>load\<close> and \<open>delete\<close> are both inside it, and its
  handler catches every \<open>Exception\<close>, prints line 301 and goes on.
\<close>

definition cleanup ::
  "config \<Rightarrow> ('w, 'h, 's) backend \<Rightarrow> 'w \<Rightarrow> ('h, 's) event list \<times> 's msg list \<times> 'w" where
  "cleanup cfg be w =
     (case load be (agent_id cfg) w of
        (Inl e, w1) \<Rightarrow>
          ([ELoad (agent_id cfg) (Inl e)],
           [MsgChecking (agent_id cfg), MsgNoExisting (agent_id cfg)], w1)
      | (Inr existing_agent, w1) \<Rightarrow>
          (case delete be existing_agent w1 of
             (Some e, w2) \<Rightarrow>
               ([ELoad (agent_id cfg) (Inr existing_agent), EDelete existing_agent (Some e)],
                [MsgChecking (agent_id cfg), MsgExistsDeleting (agent_id cfg),
                 MsgNoExisting (agent_id cfg)], w2)
           | (None, w2) \<Rightarrow>
               ([ELoad (agent_id cfg) (Inr existing_agent), EDelete existing_agent None],
                [MsgChecking (agent_id cfg), MsgExistsDeleting (agent_id cfg),
                 MsgDeleted], w2)))"

text \<open>Lines 358-363.\<close>

definition sample_investigation :: "(string \<times> string) list" where
  "sample_investigation =
     [(''target_address'', ''DjVE6JNiYqPL2QXyCUUh8rNjHrbz9hXHNYt99MQ59qw1''),
      (''investigation_type'', ''full''),
      (''suspected_activity'', ''mixer''),
      (''urgency_level'', ''normal'')]"

text \<open>Lines 309-313, the prints before \<open>Agent.create\<close>.\<close>

definition creating_lines :: "config \<Rightarrow> 's msg list" where
  "creating_lines cfg =
     [MsgCreating, MsgId (agent_id cfg), MsgName (agent_name cfg),
      MsgTools (length (tools (blueprint cfg))),
      MsgStrategy (strategy_name (strategy (blueprint cfg)))]"

text \<open>Lines 333-367, the prints after a successful \<open>get_info\<close>.\<close>

definition report_lines :: "config \<Rightarrow> agent_info \<Rightarrow> 's msg list" where
  "report_lines cfg agent_info =
     [MsgInfoState (info_state agent_info),
      MsgInfoTools (length (case info_tools agent_info of None \<Rightarrow> [] | Some ts \<Rightarrow> ts)),
      MsgInfoStrategy
        (case info_strategy_name agent_info of None \<Rightarrow> ''unknown'' | Some n \<Rightarrow> n),
      MsgMarketplace, MsgReadyForMarketplace, MsgMetadataPrepared, MsgMarketplaceTodo,
      MsgBlank,
      MsgMetadataSummary, MsgCategory, MsgTags, MsgPricing, MsgDocumentation,
      MsgSetupComplete, MsgCanTest, MsgWebhook (host cfg) (agent_id cfg),
      MsgSample, MsgSampleOpen]
     @ map (\<lambda>(key, v). MsgSampleEntry key v) sample_investigation
     @ [MsgSampleClose]"

text \<open>
  Lines 291-369, the body of the \<open>with\<close> block. The result is \<open>Inr 0\<close> for the
  \<open>return 0\<close> of line 369 and \<open>Inl e\<close> for an exception that leaves the block.
\<close>

definition with_body ::
  "config \<Rightarrow> ('w, 'h, 's) backend \<Rightarrow> 'w \<Rightarrow>
     (exn + int) \<times> ('h, 's) event list \<times> 's msg list \<times> 'w" where
  "with_body cfg be w =
     (case cleanup cfg be w of (t1, o1, w1) \<Rightarrow>
      (case list_agents be w1 of
         (Inl e, w2) \<Rightarrow>
           (Inl e, t1 @ [EListAgents (Inl e)],
            MsgConnected (host cfg) # o1 @ [MsgCurrentAgents], w2)
       | (Inr current_agents, w2) \<Rightarrow>
           (let t2 = t1 @ [EListAgents (Inr current_agents)];
                o2 = MsgConnected (host cfg) # o1 @ MsgCurrentAgents
                       # map MsgAgentLine current_agents @ creating_lines cfg
            in
            (case create be (blueprint cfg) (agent_id cfg) (agent_name cfg)
                    (agent_description cfg) w2 of
               (Inl e, w3) \<Rightarrow>
                 (Inl e,
                  t2 @ [ECreate (blueprint cfg) (agent_id cfg) (agent_name cfg)
                          (agent_description cfg) (Inl e)],
                  o2, w3)
             | (Inr agent, w3) \<Rightarrow>
                 (let t3 = t2 @ [ECreate (blueprint cfg) (agent_id cfg) (agent_name cfg)
                                   (agent_description cfg) (Inr agent)];
                      o3 = o2 @ [MsgCreated, MsgSettingRunning]
                  in
                  (case set_state be agent RUNNING w3 of
                     (Some e, w4) \<Rightarrow>
                       (Inl e, t3 @ [ESetState agent RUNNING (Some e)], o3, w4)
                   | (None, w4) \<Rightarrow>
                       (let t4 = t3 @ [ESetState agent RUNNING None];
                            o4 = o3 @ [MsgActive, MsgVerification]
                        in
                        (case get_info be agent w4 of
                           (Inl e, w5) \<Rightarrow>
                             (Inl e, t4 @ [EGetInfo agent (Inl e)], o4, w5)
                         | (Inr agent_info, w5) \<Rightarrow>
                             (Inr 0, t4 @ [EGetInfo agent (Inr agent_info)],
                              o4 @ report_lines cfg agent_info, w5)))))))))"

text \<open>Lines 371-379, the outer handler: seven prints, then \<open>return 1\<close>.\<close>

definition error_lines :: "config \<Rightarrow> exn \<Rightarrow> 's msg list" where
  "error_lines cfg e =
     [MsgError, MsgErrorText e, MsgTroubleshooting, MsgHintBackend, MsgHintEnv,
      MsgHintTools, MsgHintNetwork (host cfg)]"

text \<open>
  \<open>main\<close> (lines 280-379), with the module constants as the argument \<open>cfg\<close>. An
  exception of the connection constructor is caught by the outer handler with
  nothing to close; an exception inside the block closes the connection first.
\<close>

definition main_cfg ::
  "config \<Rightarrow> ('w, 'h, 's) backend \<Rightarrow> 'w \<Rightarrow> ('w, 'h, 's) run" where
  "main_cfg cfg be w =
     (let o0 = [MsgBanner, MsgRule, MsgStarted, MsgBlank, MsgConnecting] in
      (case connect be (host cfg) w of
         (Some e, w1) \<Rightarrow>
           \<lparr>exit_code = 1, trace = [EConnect (host cfg) (Some e)],
            printed = o0 @ error_lines cfg e, world = w1\<rparr>
       | (None, w1) \<Rightarrow>
           (case with_body cfg be w1 of
              (Inl e, t, out, w2) \<Rightarrow>
                \<lparr>exit_code = 1, trace = EConnect (host cfg) None # t @ [EClose],
                 printed = o0 @ out @ error_lines cfg e, world = close be w2\<rparr>
            | (Inr code, t, out, w2) \<Rightarrow>
                \<lparr>exit_code = code, trace = EConnect (host cfg) None # t @ [EClose],
                 printed = o0 @ out, world = close be w2\<rparr>)))"

text \<open>
  The module constants (lines 19-113). \<open>AGENT_DESCRIPTION\<close> (lines 22-35) holds
  characters outside ASCII; \<open>main\<close> only hands it to \<open>Agent.create\<close>, so the text is
  left as an argument.
\<close>

definition HOST :: string where
  "HOST = ''http://127.0.0.1:8052/api/v1''"

definition AGENT_ID :: string where
  "AGENT_ID = ''juliaxbt-investigator''"

definition AGENT_NAME :: string where
  "AGENT_NAME = ''juliaXBT - Blockchain Investigation Agent''"

definition AGENT_BLUEPRINT :: agent_blueprint where
  "AGENT_BLUEPRINT =
     \<lparr>tools =
        [\<lparr>tool_name = ''solana_rpc'',
          tool_config =
            [(''rpc_url'', PStr ''https://api.mainnet-beta.solana.com''),
             (''timeout_seconds'', PInt 30)]\<rparr>,
         \<lparr>tool_name = ''transaction_tracer'',
          tool_config =
            [(''rpc_url'', PStr ''https://api.mainnet-beta.solana.com''),
             (''max_hops'', PInt 7),
             (''timeout_seconds'', PInt 60),
             (''min_transfer_amount'', PFloat ''0.001'')]\<rparr>,
         \<lparr>tool_name = ''mixer_detector'',
          tool_config =
            [(''rpc_url'', PStr ''https://api.mainnet-beta.solana.com''),
             (''tornado_cash_addresses'',
                PList [PStr ''JUP6LkbZbjS1jKKwapdHNy74zcZ3tLUZoi5QNyVTaV4'',
                       PStr ''whirLbMiicVdio4qvUfM5KAg6Ct8VwpYzGff3uctyCc'']),
             (''samourai_addresses'', PList []),
             (''mixer_confidence_threshold'', PFloat ''0.7''),
             (''analysis_depth'', PInt 5),
             (''timeout_seconds'', PInt 30)]\<rparr>,
         \<lparr>tool_name = ''twitter_research'',
          tool_config =
            [(''bearer_token'', PStr ''demo-twitter-bearer-token''),
             (''api_base_url'', PStr ''https://api.twitter.com/2''),
             (''max_results_per_request'', PInt 50),
             (''timeout_seconds'', PInt 30),
             (''include_metrics'', PBool True)]\<rparr>,
         \<lparr>tool_name = ''thread_generator'',
          tool_config =
            [(''api_key'', PStr ''demo-key-placeholder''),
             (''model_name'', PStr ''models/gemini-1.5-pro''),
             (''temperature'', PFloat ''0.8''),
             (''max_output_tokens'', PInt 2048),
             (''juliaxbt_style'', PBool True)]\<rparr>],
      strategy =
        \<lparr>strategy_name = ''juliaxbt_investigation'',
         strategy_config =
           [(''max_investigation_depth'', PInt 7),
            (''auto_publish_threads'', PBool False),
            (''investigation_priority_threshold'', PStr ''MEDIUM''),
            (''enable_social_media_research'', PBool True),
            (''evidence_confidence_threshold'', PFloat ''0.7'')]\<rparr>,
      trigger =
        \<lparr>trigger_type = ''webhook'',
         trigger_params = [(''path'', PStr ''/investigate''), (''method'', PStr ''POST'')]\<rparr>\<rparr>"

definition script_config :: "string \<Rightarrow> config" where
  "script_config AGENT_DESCRIPTION =
     \<lparr>host = HOST, agent_id = AGENT_ID, agent_name = AGENT_NAME,
      agent_description = AGENT_DESCRIPTION, blueprint = AGENT_BLUEPRINT\<rparr>"

definition main :: "string \<Rightarrow> ('w, 'h, 's) backend \<Rightarrow> 'w \<Rightarrow> ('w, 'h, 's) run" where
  "main AGENT_DESCRIPTION = main_cfg (script_config AGENT_DESCRIPTION)"

subsection \<open>Reading a trace\<close>

datatype op =
  OpConnect | OpLoad | OpDelete | OpListAgents | OpCreate | OpSetState | OpGetInfo | OpClose

fun op_of :: "('h, 's) event \<Rightarrow> op" where
  "op_of (EConnect _ _) = OpConnect"
| "op_of (ELoad _ _) = OpLoad"
| "op_of (EDelete _ _) = OpDelete"
| "op_of (EListAgents _) = OpListAgents"
| "op_of (ECreate _ _ _ _ _) = OpCreate"
| "op_of (ESetState _ _ _) = OpSetState"
| "op_of (EGetInfo _ _) = OpGetInfo"
| "op_of EClose = OpClose"

text \<open>The exception that a call raised, if it raised one.\<close>

fun failure :: "('h, 's) event \<Rightarrow> exn option" where
  "failure (EConnect _ r) = r"
| "failure (ELoad _ r) = (case r of Inl e \<Rightarrow> Some e | Inr _ \<Rightarrow> None)"
| "failure (EDelete _ r) = r"
| "failure (EListAgents r) = (case r of Inl e \<Rightarrow> Some e | Inr _ \<Rightarrow> None)"
| "failure (ECreate _ _ _ _ r) = (case r of Inl e \<Rightarrow> Some e | Inr _ \<Rightarrow> None)"
| "failure (ESetState _ _ r) = r"
| "failure (EGetInfo _ r) = (case r of Inl e \<Rightarrow> Some e | Inr _ \<Rightarrow> None)"
| "failure EClose = None"

text \<open>The calls that follow the first occurrence of a call in a trace.\<close>

definition calls_after :: "('h, 's) event \<Rightarrow> ('h, 's) event list \<Rightarrow> ('h, 's) event list" where
  "calls_after ev t = tl (dropWhile (\<lambda>x. x \<noteq> ev) t)"

subsection \<open>The backend of the specification\<close>

text \<open>
  The \<open>juliaos\<close> package and the service behind it are not among the sources. Claims
  that speak of the resources that exist after a run, and of their state, are settled
  against the following backend.
\<close>

record resource =
  res_id :: string
  res_name :: string
  res_description :: string
  res_blueprint :: agent_blueprint
  res_state :: agent_state

text \<open>
  Modelled from the spec: the state of the remote backend, which is missing from the
  sources. \<open>resources\<close> are the agents that exist (section 3: an id is unique within
  the backend; a list, so that uniqueness is a property and not a matter of types),
  \<open>resolvable\<close> the tool, strategy and trigger names that the backend can resolve
  (section 4.2, \<open>ValidationError\<close>), \<open>outages\<close> the network: one entry for each call
  still to come, \<open>True\<close> where the endpoint is unreachable at that call (section 4.1,
  \<open>ConnectionError\<close>; scenario C), reachable past the end of the list.
\<close>

record remote =
  resources :: "resource list"
  resolvable :: "string list"
  outages :: "bool list"

definition reach :: "remote \<Rightarrow> bool \<times> remote" where
  "reach w = (case outages w of [] \<Rightarrow> (True, w)
              | down # rest \<Rightarrow> (\<not> down, w\<lparr>outages := rest\<rparr>))"

definition lookup_resource :: "string \<Rightarrow> remote \<Rightarrow> resource option" where
  "lookup_resource i w = find (\<lambda>r. res_id r = i) (resources w)"

definition resolves :: "remote \<Rightarrow> agent_blueprint \<Rightarrow> bool" where
  "resolves w bp \<longleftrightarrow>
     (\<forall>t \<in> set (tools bp). tool_name t \<in> set (resolvable w)) \<and>
     strategy_name (strategy bp) \<in> set (resolvable w) \<and>
     trigger_type (trigger bp) \<in> set (resolvable w)"

text \<open>
  Modelled from the spec: the transitions of \<open>set_state\<close> (section 4.2):
  CREATED to RUNNING, RUNNING to PAUSED, PAUSED to RUNNING, and nothing else.
\<close>

fun valid_transition :: "agent_state \<Rightarrow> agent_state \<Rightarrow> bool" where
  "valid_transition CREATED RUNNING = True"
| "valid_transition RUNNING PAUSED = True"
| "valid_transition PAUSED RUNNING = True"
| "valid_transition _ _ = False"

text \<open>
  Modelled from the spec: \<open>open(endpoint)\<close> of section 4.1, which fails with
  \<open>ConnectionError\<close> when the endpoint is unreachable.
\<close>

definition spec_connect :: "string \<Rightarrow> remote \<Rightarrow> exn option \<times> remote" where
  "spec_connect endpoint w =
     (case reach w of (False, w') \<Rightarrow> (Some ConnectionError, w') | (True, w') \<Rightarrow> (None, w'))"

text \<open>
  Modelled from the spec: \<open>load(conn, id)\<close> of section 4.2: \<open>NotFoundError\<close> when no
  resource has the id, no side effect. A handle is the id it stands for.
\<close>

definition spec_load :: "string \<Rightarrow> remote \<Rightarrow> (exn + string) \<times> remote" where
  "spec_load i w =
     (case reach w of
        (False, w') \<Rightarrow> (Inl ConnectionError, w')
      | (True, w') \<Rightarrow>
          (case lookup_resource i w' of
             None \<Rightarrow> (Inl NotFoundError, w')
           | Some _ \<Rightarrow> (Inr i, w')))"

text \<open>
  Modelled from the spec: \<open>delete()\<close> of section 4.2: \<open>NotFoundError\<close> if the resource
  is already gone, otherwise the resource and all its state are destroyed.
\<close>

definition spec_delete :: "string \<Rightarrow> remote \<Rightarrow> exn option \<times> remote" where
  "spec_delete h w =
     (case reach w of
        (False, w') \<Rightarrow> (Some ConnectionError, w')
      | (True, w') \<Rightarrow>
          (case lookup_resource h w' of
             None \<Rightarrow> (Some NotFoundError, w')
           | Some _ \<Rightarrow> (None, w'\<lparr>resources := filter (\<lambda>r. res_id r \<noteq> h) (resources w')\<rparr>)))"

text \<open>
  Modelled from the spec: \<open>list_agents()\<close> of section 4.1; a summary is the id.
\<close>

definition spec_list_agents :: "remote \<Rightarrow> (exn + string list) \<times> remote" where
  "spec_list_agents w =
     (case reach w of
        (False, w') \<Rightarrow> (Inl ConnectionError, w')
      | (True, w') \<Rightarrow> (Inr (map res_id (resources w')), w'))"

text \<open>
  Modelled from the spec: \<open>create(conn, blueprint, id, display_name, description)\<close> of
  section 4.2: \<open>ConflictError\<close> if the id already exists, \<open>ValidationError\<close> if a
  tool, strategy or trigger name is unresolvable, otherwise a new resource in state
  CREATED.
\<close>

definition spec_create ::
  "agent_blueprint \<Rightarrow> string \<Rightarrow> string \<Rightarrow> string \<Rightarrow> remote \<Rightarrow> (exn + string) \<times> remote" where
  "spec_create bp i name description w =
     (case reach w of
        (False, w') \<Rightarrow> (Inl ConnectionError, w')
      | (True, w') \<Rightarrow>
          (case lookup_resource i w' of
             Some _ \<Rightarrow> (Inl ConflictError, w')
           | None \<Rightarrow>
               if \<not> resolves w' bp then (Inl ValidationError, w')
               else (Inr i,
                     w'\<lparr>resources := resources w' @
                          [\<lparr>res_id = i, res_name = name, res_description = description,
                            res_blueprint = bp, res_state = CREATED\<rparr>]\<rparr>)))"

text \<open>
  Modelled from the spec: \<open>set_state(target)\<close> of section 4.2: \<open>InvalidTransitionError\<close>
  on an unsupported transition; a resource that no longer exists is in the terminal
  state DELETED, from which there is no transition.
\<close>

definition spec_set_state :: "string \<Rightarrow> agent_state \<Rightarrow> remote \<Rightarrow> exn option \<times> remote" where
  "spec_set_state h target w =
     (case reach w of
        (False, w') \<Rightarrow> (Some ConnectionError, w')
      | (True, w') \<Rightarrow>
          (case lookup_resource h w' of
             None \<Rightarrow> (Some InvalidTransitionError, w')
           | Some r \<Rightarrow>
               if valid_transition (res_state r) target
               then (None,
                     w'\<lparr>resources :=
                          map (\<lambda>x. if res_id x = h then x\<lparr>res_state := target\<rparr> else x)
                            (resources w')\<rparr>)
               else (Some InvalidTransitionError, w')))"

text \<open>
  Modelled from the spec: \<open>get_info()\<close> of section 4.2: a read-only snapshot of state,
  tools and strategy name, read from the backend.
\<close>

definition spec_get_info :: "string \<Rightarrow> remote \<Rightarrow> (exn + agent_info) \<times> remote" where
  "spec_get_info h w =
     (case reach w of
        (False, w') \<Rightarrow> (Inl ConnectionError, w')
      | (True, w') \<Rightarrow>
          (case lookup_resource h w' of
             None \<Rightarrow> (Inl NotFoundError, w')
           | Some r \<Rightarrow>
               (Inr \<lparr>info_state = Some (res_state r),
                     info_tools = Some (map tool_name (tools (res_blueprint r))),
                     info_strategy_name = Some (strategy_name (strategy (res_blueprint r)))\<rparr>,
                w')))"

text \<open>
  Modelled from the spec: the backend interface of section 6, assembled from the
  operations above; releasing the connection changes nothing on the backend.
\<close>

definition spec_backend :: "(remote, string, string) backend" where
  "spec_backend =
     \<lparr>connect = spec_connect, close = (\<lambda>w. w), load = spec_load, delete = spec_delete,
      list_agents = spec_list_agents, create = spec_create, set_state = spec_set_state,
      get_info = spec_get_info\<rparr>"

subsection \<open>Concrete backends and configurations\<close>

text \<open>
  A backend with no agents that resolves the names of \<open>AGENT_BLUEPRINT\<close> and whose
  endpoint is reachable.
\<close>

definition fresh_remote :: remote where
  "fresh_remote =
     \<lparr>resources = [],
      resolvable = [''solana_rpc'', ''transaction_tracer'', ''mixer_detector'',
                    ''twitter_research'', ''thread_generator'', ''juliaxbt_investigation'',
                    ''webhook''],
      outages = []\<rparr>"

text \<open>
  The same backend with the endpoint unreachable at the second call of a run, which
  is the \<open>load\<close>; at the fifth, which is the \<open>set_state\<close> of a run on a backend without
  agents; and a backend that resolves no name.
\<close>

definition outage_at_load :: remote where
  "outage_at_load = fresh_remote\<lparr>outages := [False, True]\<rparr>"

definition outage_at_set_state :: remote where
  "outage_at_set_state = fresh_remote\<lparr>outages := [False, False, False, False, True]\<rparr>"

definition no_tools_remote :: remote where
  "no_tools_remote = fresh_remote\<lparr>resolvable := []\<rparr>"

text \<open>
  The first line of \<open>AGENT_DESCRIPTION\<close> (line 23), which stands for the whole text
  where a run of \<open>main\<close> is evaluated.
\<close>

definition description_line :: string where
  "description_line =
     ''Advanced blockchain forensics agent conducting comprehensive investigations in the style of juliaXBT.''"

text \<open>The configuration of the script with the first two tools only.\<close>

definition two_tools_config :: "string \<Rightarrow> config" where
  "two_tools_config d =
     (script_config d)\<lparr>blueprint := AGENT_BLUEPRINT\<lparr>tools := take 2 (tools AGENT_BLUEPRINT)\<rparr>\<rparr>"

text \<open>The backend as the first run of the script leaves it.\<close>

definition published_remote :: remote where
  "published_remote = world (main description_line spec_backend fresh_remote)"

text \<open>
  That backend with the endpoint unreachable at the third call of a run, which is
  the \<open>delete\<close> of the agent found by the \<open>load\<close>.
\<close>

definition outage_at_delete :: remote where
  "outage_at_delete = published_remote\<lparr>outages := [False, False, True]\<rparr>"

section \<open>Properties\<close>

subsection \<open>The paths of a run\<close>

text \<open>
  The inner \<open>try\<close> ends in one of three ways, and a run in one of six: the connection
  fails, one of \<open>list_agents\<close>, \<open>create\<close>, \<open>set_state\<close> and \<open>get_info\<close> raises, or
  line 369 is reached. Every property below is read off these cases.
\<close>

lemma cleanup_cases [consumes 1, case_names load_raised delete_raised deleted]:
  assumes "cleanup cfg be w = (t1, o1, w1)"
  obtains
    (load_raised) e where
      "load be (agent_id cfg) w = (Inl e, w1)"
      "t1 = [ELoad (agent_id cfg) (Inl e)]"
      "o1 = [MsgChecking (agent_id cfg), MsgNoExisting (agent_id cfg)]"
  | (delete_raised) h w' e where
      "load be (agent_id cfg) w = (Inr h, w')"
      "delete be h w' = (Some e, w1)"
      "t1 = [ELoad (agent_id cfg) (Inr h), EDelete h (Some e)]"
      "o1 = [MsgChecking (agent_id cfg), MsgExistsDeleting (agent_id cfg),
             MsgNoExisting (agent_id cfg)]"
  | (deleted) h w' where
      "load be (agent_id cfg) w = (Inr h, w')"
      "delete be h w' = (None, w1)"
      "t1 = [ELoad (agent_id cfg) (Inr h), EDelete h None]"
      "o1 = [MsgChecking (agent_id cfg), MsgExistsDeleting (agent_id cfg), MsgDeleted]"
  using assms
  by (auto simp: cleanup_def split: prod.splits sum.splits option.splits)

lemma main_cfg_cases
  [case_names connect_raised list_raised create_raised set_state_raised get_info_raised returned]:
  obtains
    (connect_raised) e w1 where
      "connect be (host cfg) w = (Some e, w1)"
      "main_cfg cfg be w =
         \<lparr>exit_code = 1, trace = [EConnect (host cfg) (Some e)],
          printed = [MsgBanner, MsgRule, MsgStarted, MsgBlank, MsgConnecting] @ error_lines cfg e, world = w1\<rparr>"
  | (list_raised) w1 t1 o1 w2 e w3 where
      "connect be (host cfg) w = (None, w1)"
      "cleanup cfg be w1 = (t1, o1, w2)"
      "list_agents be w2 = (Inl e, w3)"
      "main_cfg cfg be w =
         \<lparr>exit_code = 1,
          trace = EConnect (host cfg) None # t1 @ [EListAgents (Inl e), EClose],
          printed = [MsgBanner, MsgRule, MsgStarted, MsgBlank, MsgConnecting]
             @ MsgConnected (host cfg) # o1 @ [MsgCurrentAgents] @ error_lines cfg e,
          world = close be w3\<rparr>"
  | (create_raised) w1 t1 o1 w2 ags w3 e w4 where
      "connect be (host cfg) w = (None, w1)"
      "cleanup cfg be w1 = (t1, o1, w2)"
      "list_agents be w2 = (Inr ags, w3)"
      "create be (blueprint cfg) (agent_id cfg) (agent_name cfg) (agent_description cfg) w3
         = (Inl e, w4)"
      "main_cfg cfg be w =
         \<lparr>exit_code = 1,
          trace = EConnect (host cfg) None # t1 @
            [EListAgents (Inr ags),
             ECreate (blueprint cfg) (agent_id cfg) (agent_name cfg) (agent_description cfg)
               (Inl e),
             EClose],
          printed = [MsgBanner, MsgRule, MsgStarted, MsgBlank, MsgConnecting]
             @ MsgConnected (host cfg) # o1 @ MsgCurrentAgents # map MsgAgentLine ags
             @ creating_lines cfg @ error_lines cfg e,
          world = close be w4\<rparr>"
  | (set_state_raised) w1 t1 o1 w2 ags w3 agent w4 e w5 where
      "connect be (host cfg) w = (None, w1)"
      "cleanup cfg be w1 = (t1, o1, w2)"
      "list_agents be w2 = (Inr ags, w3)"
      "create be (blueprint cfg) (agent_id cfg) (agent_name cfg) (agent_description cfg) w3
         = (Inr agent, w4)"
      "set_state be agent RUNNING w4 = (Some e, w5)"
      "main_cfg cfg be w =
         \<lparr>exit_code = 1,
          trace = EConnect (host cfg) None # t1 @
            [EListAgents (Inr ags),
             ECreate (blueprint cfg) (agent_id cfg) (agent_name cfg) (agent_description cfg)
               (Inr agent),
             ESetState agent RUNNING (Some e),
             EClose],
          printed = [MsgBanner, MsgRule, MsgStarted, MsgBlank, MsgConnecting]
             @ MsgConnected (host cfg) # o1 @ MsgCurrentAgents # map MsgAgentLine ags
             @ creating_lines cfg @ [MsgCreated, MsgSettingRunning] @ error_lines cfg e,
          world = close be w5\<rparr>"
  | (get_info_raised) w1 t1 o1 w2 ags w3 agent w4 w5 e w6 where
      "connect be (host cfg) w = (None, w1)"
      "cleanup cfg be w1 = (t1, o1, w2)"
      "list_agents be w2 = (Inr ags, w3)"
      "create be (blueprint cfg) (agent_id cfg) (agent_name cfg) (agent_description cfg) w3
         = (Inr agent, w4)"
      "set_state be agent RUNNING w4 = (None, w5)"
      "get_info be agent w5 = (Inl e, w6)"
      "main_cfg cfg be w =
         \<lparr>exit_code = 1,
          trace = EConnect (host cfg) None # t1 @
            [EListAgents (Inr ags),
             ECreate (blueprint cfg) (agent_id cfg) (agent_name cfg) (agent_description cfg)
               (Inr agent),
             ESetState agent RUNNING None,
             EGetInfo agent (Inl e),
             EClose],
          printed = [MsgBanner, MsgRule, MsgStarted, MsgBlank, MsgConnecting]
             @ MsgConnected (host cfg) # o1 @ MsgCurrentAgents # map MsgAgentLine ags
             @ creating_lines cfg @ [MsgCreated, MsgSettingRunning, MsgActive, MsgVerification]
             @ error_lines cfg e,
          world = close be w6\<rparr>"
  | (returned) w1 t1 o1 w2 ags w3 agent w4 w5 info w6 where
      "connect be (host cfg) w = (None, w1)"
      "cleanup cfg be w1 = (t1, o1, w2)"
      "list_agents be w2 = (Inr ags, w3)"
      "create be (blueprint cfg) (agent_id cfg) (agent_name cfg) (agent_description cfg) w3
         = (Inr agent, w4)"
      "set_state be agent RUNNING w4 = (None, w5)"
      "get_info be agent w5 = (Inr info, w6)"
      "main_cfg cfg be w =
         \<lparr>exit_code = 0,
          trace = EConnect (host cfg) None # t1 @
            [EListAgents (Inr ags),
             ECreate (blueprint cfg) (agent_id cfg) (agent_name cfg) (agent_description cfg)
               (Inr agent),
             ESetState agent RUNNING None,
             EGetInfo agent (Inr info),
             EClose],
          printed = [MsgBanner, MsgRule, MsgStarted, MsgBlank, MsgConnecting]
             @ MsgConnected (host cfg) # o1 @ MsgCurrentAgents # map MsgAgentLine ags
             @ creating_lines cfg @ [MsgCreated, MsgSettingRunning, MsgActive, MsgVerification]
             @ report_lines cfg info,
          world = close be w6\<rparr>"
proof (cases "connect be (host cfg) w")
  case (Pair c w1)
  show ?thesis
  proof (cases c)
    case (Some e)
    with Pair show ?thesis
      by (intro connect_raised[of e w1]) (simp_all add: main_cfg_def)
  next
    case None
    note c = Pair[unfolded None]
    obtain t1 o1 w2 where cl: "cleanup cfg be w1 = (t1, o1, w2)"
      by (cases "cleanup cfg be w1") auto
    obtain la w3 where la: "list_agents be w2 = (la, w3)"
      by (cases "list_agents be w2") auto
    show ?thesis
    proof (cases la)
      case (Inl e)
      show ?thesis
        by (rule list_raised[OF c cl la[unfolded Inl]])
           (simp add: main_cfg_def with_body_def c cl la Inl)
    next
      case (Inr ags)
      note la' = la[unfolded Inr]
      obtain cr w4 where cr: "create be (blueprint cfg) (agent_id cfg) (agent_name cfg)
         (agent_description cfg) w3 = (cr, w4)"
        by (cases "create be (blueprint cfg) (agent_id cfg) (agent_name cfg)
         (agent_description cfg) w3") auto
      show ?thesis
      proof (cases cr)
        case (Inl e)
        show ?thesis
          by (rule create_raised[OF c cl la' cr[unfolded Inl]])
             (simp add: main_cfg_def with_body_def c cl la' cr Inl)
      next
        case (Inr agent)
        note cr' = cr[unfolded Inr]
        obtain ss w5 where ss: "set_state be agent RUNNING w4 = (ss, w5)"
          by (cases "set_state be agent RUNNING w4") auto
        show ?thesis
        proof (cases ss)
          case (Some e)
          show ?thesis
            by (rule set_state_raised[OF c cl la' cr' ss[unfolded Some]])
               (simp add: main_cfg_def with_body_def c cl la' cr' ss Some)
        next
          case None
          note ss' = ss[unfolded None]
          obtain gi w6 where gi: "get_info be agent w5 = (gi, w6)"
            by (cases "get_info be agent w5") auto
          show ?thesis
          proof (cases gi)
            case (Inl e)
            show ?thesis
              by (rule get_info_raised[OF c cl la' cr' ss' gi[unfolded Inl]])
                 (simp add: main_cfg_def with_body_def c cl la' cr' ss' gi Inl)
          next
            case (Inr info)
            show ?thesis
              by (rule returned[OF c cl la' cr' ss' gi[unfolded Inr]])
                 (simp add: main_cfg_def with_body_def c cl la' cr' ss' gi Inr)
          qed
        qed
      qed
    qed
  qed
qed

lemmas spec_defs = spec_backend_def spec_connect_def spec_load_def spec_delete_def
  spec_list_agents_def spec_create_def spec_set_state_def spec_get_info_def reach_def
  lookup_resource_def resolves_def

lemmas main_defs = main_cfg_def with_body_def cleanup_def creating_lines_def
  report_lines_def error_lines_def sample_investigation_def Let_def

lemmas run_defs = main_def script_config_def HOST_def AGENT_ID_def AGENT_NAME_def
  AGENT_BLUEPRINT_def fresh_remote_def outage_at_load_def outage_at_set_state_def
  no_tools_remote_def two_tools_config_def published_remote_def outage_at_delete_def
  description_line_def
  main_defs spec_defs

subsection \<open>Facts about the backend of the specification\<close>

lemma lookup_resource_None:
  "lookup_resource i w = None \<Longrightarrow> filter (\<lambda>x. res_id x = i) (resources w) = []"
  by (simp add: lookup_resource_def find_None_iff filter_empty_conv)

lemma reach_resources: "reach w = (b, w') \<Longrightarrow> resources w' = resources w"
  by (auto simp: reach_def split: list.splits)

lemma spec_create_returned:
  assumes "spec_create bp i n d w = (Inr h, w')"
  shows "h = i \<and>
         filter (\<lambda>x. res_id x = i) (resources w') =
           [\<lparr>res_id = i, res_name = n, res_description = d, res_blueprint = bp,
             res_state = CREATED\<rparr>]"
  using assms
  by (auto simp: spec_create_def lookup_resource_None
           split: prod.splits bool.splits option.splits if_splits)

lemma spec_set_state_raised:
  "spec_set_state h t w = (Some e, w') \<Longrightarrow> resources w' = resources w"
  by (auto simp: spec_set_state_def dest: reach_resources
           split: prod.splits bool.splits option.splits if_splits)

subsection \<open>Publishing twice\<close>

text \<open>
  Claim C1. On a backend of the specification that holds no agent, is reachable and
  resolves the names of the blueprint, two runs in succession both return 0. The
  second run finds the agent of the first under the id, deletes it without an error,
  lists no agent, and creates, starts and reads the new one: no call of the second
  run raises, so nothing is reported about an id that already exists. After the
  second run the backend holds exactly one resource; it has the id, the name, the
  description and the blueprint of the configuration and is RUNNING, and the backend
  is in the state in which the first run left it.
\<close>

theorem publish_twice_one_running_resource:
  assumes "resources w = []" and "outages w = []" and "resolves w (blueprint cfg)"
  shows "exit_code (main_cfg cfg spec_backend w) = 0 \<and>
         exit_code (main_cfg cfg spec_backend (world (main_cfg cfg spec_backend w))) = 0 \<and>
         trace (main_cfg cfg spec_backend (world (main_cfg cfg spec_backend w))) =
           [EConnect (host cfg) None,
            ELoad (agent_id cfg) (Inr (agent_id cfg)),
            EDelete (agent_id cfg) None,
            EListAgents (Inr []),
            ECreate (blueprint cfg) (agent_id cfg) (agent_name cfg) (agent_description cfg)
              (Inr (agent_id cfg)),
            ESetState (agent_id cfg) RUNNING None,
            EGetInfo (agent_id cfg)
              (Inr \<lparr>info_state = Some RUNNING,
                    info_tools = Some (map tool_name (tools (blueprint cfg))),
                    info_strategy_name = Some (strategy_name (strategy (blueprint cfg)))\<rparr>),
            EClose] \<and>
         resources (world (main_cfg cfg spec_backend (world (main_cfg cfg spec_backend w)))) =
           [\<lparr>res_id = agent_id cfg, res_name = agent_name cfg,
             res_description = agent_description cfg, res_blueprint = blueprint cfg,
             res_state = RUNNING\<rparr>] \<and>
         world (main_cfg cfg spec_backend (world (main_cfg cfg spec_backend w))) =
           world (main_cfg cfg spec_backend w)"
  using assms by (simp add: main_defs spec_defs)

text \<open>The script itself, run twice on \<open>fresh_remote\<close>.\<close>

theorem publish_twice_witness:
  "resources fresh_remote = [] \<and> outages fresh_remote = [] \<and>
   resolves fresh_remote (blueprint (script_config description_line)) \<and>
   exit_code (main description_line spec_backend
                (world (main description_line spec_backend fresh_remote))) = 0 \<and>
   map res_state
     (resources (world (main description_line spec_backend
                          (world (main description_line spec_backend fresh_remote))))) =
     [RUNNING]"
proof -
  have h1: "resources fresh_remote = []" and h2: "outages fresh_remote = []"
    by (simp_all add: fresh_remote_def)
  have h3: "resolves fresh_remote (blueprint (script_config description_line))"
    by (simp add: resolves_def fresh_remote_def script_config_def AGENT_BLUEPRINT_def)
  from publish_twice_one_running_resource [OF h1 h2 h3]
  have "exit_code (main_cfg (script_config description_line) spec_backend
          (world (main_cfg (script_config description_line) spec_backend fresh_remote))) = 0"
    and "resources (world (main_cfg (script_config description_line) spec_backend
          (world (main_cfg (script_config description_line) spec_backend fresh_remote)))) =
           [\<lparr>res_id = agent_id (script_config description_line),
             res_name = agent_name (script_config description_line),
             res_description = agent_description (script_config description_line),
             res_blueprint = blueprint (script_config description_line),
             res_state = RUNNING\<rparr>]"
    by blast+
  then show ?thesis
    using h1 h2 h3 by (simp add: main_def)
qed

subsection \<open>Which failures end a run\<close>




subsection \<open>The order of the calls\<close>

text \<open>
  Claim C3 says that a successful run performs its backend operations in exactly the
  order \<open>load\<close>, \<open>delete\<close> (if the \<open>load\<close> found a resource), \<open>create\<close>,
  \<open>set_state\<close>, \<open>get_info\<close>. Line 305 calls \<open>conn.list_agents()\<close> between the
  cleanup and the \<open>create\<close>: in the second run of the script, which returns 0, the
  call after the \<open>delete\<close> is \<open>list_agents\<close>, not \<open>create\<close>.
\<close>

theorem list_agents_between_counterexample:
  "exit_code (main description_line spec_backend published_remote) = 0 \<and>
   map op_of (trace (main description_line spec_backend published_remote)) =
     [OpConnect, OpLoad, OpDelete, OpListAgents, OpCreate, OpSetState, OpGetInfo, OpClose]"
  by (simp add: run_defs)

text \<open>
  Claim C3, as amended. A run returns 0 exactly when the backend answers in one of
  two ways, and then the run has made these calls and no others, each once and each
  on the world that the call before it left: the connection is opened; \<open>load\<close> of
  the target id; \<open>delete\<close> of the handle that the \<open>load\<close> returned, exactly when it
  returned one (whatever the \<open>delete\<close> answers); \<open>list_agents\<close>; \<open>create\<close> with the
  blueprint, the id, the name and the description; \<open>set_state\<close> to RUNNING on the
  handle that \<open>create\<close> returned; \<open>get_info\<close> on the same handle; the connection is
  closed. Nothing that changes the backend comes before the \<open>load\<close>, and no step is
  repeated.
\<close>

theorem publish_call_order:
  "exit_code (main_cfg cfg be w) = 0 \<longleftrightarrow>
     (\<exists>w1 e w2 ags w3 agent w4 w5 info w6.
        connect be (host cfg) w = (None, w1) \<and>
        load be (agent_id cfg) w1 = (Inl e, w2) \<and>
        list_agents be w2 = (Inr ags, w3) \<and>
        create be (blueprint cfg) (agent_id cfg) (agent_name cfg) (agent_description cfg) w3
          = (Inr agent, w4) \<and>
        set_state be agent RUNNING w4 = (None, w5) \<and>
        get_info be agent w5 = (Inr info, w6) \<and>
        trace (main_cfg cfg be w) =
          [EConnect (host cfg) None,
           ELoad (agent_id cfg) (Inl e),
           EListAgents (Inr ags),
           ECreate (blueprint cfg) (agent_id cfg) (agent_name cfg) (agent_description cfg)
             (Inr agent),
           ESetState agent RUNNING None,
           EGetInfo agent (Inr info),
           EClose] \<and>
        world (main_cfg cfg be w) = close be w6)
   \<or> (\<exists>w1 existing w2 d w3 ags w4 agent w5 w6 info w7.
        connect be (host cfg) w = (None, w1) \<and>
        load be (agent_id cfg) w1 = (Inr existing, w2) \<and>
        delete be existing w2 = (d, w3) \<and>
        list_agents be w3 = (Inr ags, w4) \<and>
        create be (blueprint cfg) (agent_id cfg) (agent_name cfg) (agent_description cfg) w4
          = (Inr agent, w5) \<and>
        set_state be agent RUNNING w5 = (None, w6) \<and>
        get_info be agent w6 = (Inr info, w7) \<and>
        trace (main_cfg cfg be w) =
          [EConnect (host cfg) None,
           ELoad (agent_id cfg) (Inr existing),
           EDelete existing d,
           EListAgents (Inr ags),
           ECreate (blueprint cfg) (agent_id cfg) (agent_name cfg) (agent_description cfg)
             (Inr agent),
           ESetState agent RUNNING None,
           EGetInfo agent (Inr info),
           EClose] \<and>
        world (main_cfg cfg be w) = close be w7)"
  by (rule main_cfg_cases[of be cfg w]; (erule cleanup_cases)?; simp)

text \<open>The second run of the script takes the branch with the \<open>delete\<close>.\<close>

theorem publish_call_order_witness:
  "exit_code (main description_line spec_backend published_remote) = 0 \<and>
   (\<exists>d ags agent info.
      trace (main description_line spec_backend published_remote) =
        [EConnect HOST None, ELoad AGENT_ID (Inr AGENT_ID), EDelete AGENT_ID d,
         EListAgents (Inr ags),
         ECreate AGENT_BLUEPRINT AGENT_ID AGENT_NAME description_line (Inr agent),
         ESetState agent RUNNING None, EGetInfo agent (Inr info), EClose])"
proof -
  have h: "exit_code (main_cfg (script_config description_line) spec_backend published_remote)
             = 0"
    by (simp add: run_defs)
  have l: "ELoad AGENT_ID (Inr AGENT_ID)
     \<in> set (trace (main_cfg (script_config description_line) spec_backend published_remote))"
    by (simp add: run_defs)
  show ?thesis
    using h l publish_call_order
      [of "script_config description_line" spec_backend published_remote]
    by (auto simp: main_def script_config_def)
qed

subsection \<open>A failing \<open>create\<close>\<close>

text \<open>
  Claim C4 says that a failure of \<open>create\<close> is returned or raised to the caller. The
  handler of line 371 catches it and \<open>main\<close> returns the constant of line 379. A
  backend that resolves no tool name makes \<open>create\<close> raise \<open>ValidationError\<close>; an
  agent that is still there because its \<open>delete\<close> failed makes \<open>create\<close> raise
  \<open>ConflictError\<close>; \<open>main\<close> returns the same value in both runs.
\<close>

theorem create_failure_not_returned_counterexample:
  "ECreate AGENT_BLUEPRINT AGENT_ID AGENT_NAME description_line (Inl ValidationError)
     \<in> set (trace (main description_line spec_backend no_tools_remote)) \<and>
   ECreate AGENT_BLUEPRINT AGENT_ID AGENT_NAME description_line (Inl ConflictError)
     \<in> set (trace (main description_line spec_backend outage_at_delete)) \<and>
   exit_code (main description_line spec_backend no_tools_remote) = 1 \<and>
   exit_code (main description_line spec_backend outage_at_delete) = 1"
  by (simp add: run_defs)

text \<open>
  Claim C4, as amended. If \<open>create\<close> raises, the exception does not reach the caller
  of \<open>main\<close>: its text is printed by line 373 and \<open>main\<close> returns 1, whatever the
  exception is. The only call after the \<open>create\<close> is the closing of the connection,
  \<open>set_state\<close> is called on no handle, and \<open>create\<close> has been called once: the
  world that the run leaves is the one that the failed \<open>create\<close> of the backend
  left, closed.
\<close>

theorem create_failure_aborts:
  assumes "ECreate b i n d (Inl e) \<in> set (trace (main_cfg cfg be w))"
  shows "exit_code (main_cfg cfg be w) = 1 \<and>
         MsgErrorText e \<in> set (printed (main_cfg cfg be w)) \<and>
         calls_after (ECreate b i n d (Inl e)) (trace (main_cfg cfg be w)) = [EClose] \<and>
         (\<forall>ev \<in> set (trace (main_cfg cfg be w)). op_of ev \<noteq> OpSetState) \<and>
         length (filter (\<lambda>ev. op_of ev = OpCreate) (trace (main_cfg cfg be w))) = 1 \<and>
         (\<exists>w3 w4. create be (blueprint cfg) (agent_id cfg) (agent_name cfg)
                     (agent_description cfg) w3 = (Inl e, w4) \<and>
                   world (main_cfg cfg be w) = close be w4)"
  by (insert assms, rule main_cfg_cases[of be cfg w]; (erule cleanup_cases)?;
      auto simp: calls_after_def error_lines_def)

text \<open>A backend that resolves no tool name refuses the blueprint of the script.\<close>

theorem create_failure_aborts_witness:
  "ECreate AGENT_BLUEPRINT AGENT_ID AGENT_NAME description_line (Inl ValidationError)
     \<in> set (trace (main description_line spec_backend no_tools_remote)) \<and>
   exit_code (main description_line spec_backend no_tools_remote) = 1 \<and>
   MsgErrorText ValidationError
     \<in> set (printed (main description_line spec_backend no_tools_remote))"
proof -
  have h: "ECreate AGENT_BLUEPRINT AGENT_ID AGENT_NAME description_line (Inl ValidationError)
     \<in> set (trace (main_cfg (script_config description_line) spec_backend no_tools_remote))"
    by (simp add: run_defs)
  show ?thesis
    using h create_failure_aborts [OF h]
    by (simp add: main_def)
qed

subsection \<open>No agent under the id\<close>

text \<open>
  Claim C5. Let the connection open, the \<open>load\<close> of the target id raise
  \<open>NotFoundError\<close>, and the backend then answer \<open>list_agents\<close>, \<open>create\<close>,
  \<open>set_state\<close> to RUNNING on the created handle and \<open>get_info\<close> on it, each on the
  world that the call before left. Then the run succeeds from end to end: \<open>main\<close>
  returns 0; its calls are exactly the connection, the \<open>load\<close>, \<open>list_agents\<close>,
  \<open>create\<close>, \<open>set_state\<close>, \<open>get_info\<close> and the closing, with no \<open>delete\<close>; the
  world it leaves is the one after the \<open>get_info\<close>, closed; and the printed lines are
  those of the successful path with line 301 for the absent agent, without the error
  header and without any exception text.
\<close>

theorem absent_agent_tolerated:
  assumes "connect be (host cfg) w = (None, w1)"
    and "load be (agent_id cfg) w1 = (Inl NotFoundError, w2)"
    and "list_agents be w2 = (Inr ags, w3)"
    and "create be (blueprint cfg) (agent_id cfg) (agent_name cfg) (agent_description cfg) w3
           = (Inr agent, w4)"
    and "set_state be agent RUNNING w4 = (None, w5)"
    and "get_info be agent w5 = (Inr info, w6)"
  shows "exit_code (main_cfg cfg be w) = 0 \<and>
         trace (main_cfg cfg be w) =
           [EConnect (host cfg) None,
            ELoad (agent_id cfg) (Inl NotFoundError),
            EListAgents (Inr ags),
            ECreate (blueprint cfg) (agent_id cfg) (agent_name cfg) (agent_description cfg)
              (Inr agent),
            ESetState agent RUNNING None,
            EGetInfo agent (Inr info),
            EClose] \<and>
         printed (main_cfg cfg be w) =
           [MsgBanner, MsgRule, MsgStarted, MsgBlank, MsgConnecting,
            MsgConnected (host cfg), MsgChecking (agent_id cfg), MsgNoExisting (agent_id cfg),
            MsgCurrentAgents]
           @ map MsgAgentLine ags @ creating_lines cfg
           @ [MsgCreated, MsgSettingRunning, MsgActive, MsgVerification]
           @ report_lines cfg info \<and>
         world (main_cfg cfg be w) = close be w6 \<and>
         MsgError \<notin> set (printed (main_cfg cfg be w)) \<and>
         (\<forall>e. MsgErrorText e \<notin> set (printed (main_cfg cfg be w)))"
  using assms
  by (auto simp: main_cfg_def with_body_def cleanup_def creating_lines_def report_lines_def
        sample_investigation_def)

text \<open>
  On a backend without agents the script runs to the end and leaves its agent
  RUNNING.
\<close>

theorem absent_agent_tolerated_witness:
  "spec_load AGENT_ID fresh_remote = (Inl NotFoundError, fresh_remote) \<and>
   exit_code (main description_line spec_backend fresh_remote) = 0 \<and>
   map op_of (trace (main description_line spec_backend fresh_remote)) =
     [OpConnect, OpLoad, OpListAgents, OpCreate, OpSetState, OpGetInfo, OpClose] \<and>
   map res_state (resources (world (main description_line spec_backend fresh_remote))) =
     [RUNNING] \<and>
   MsgError \<notin> set (printed (main description_line spec_backend fresh_remote))"
proof -
  let ?cfg = "script_config description_line"
  let ?created = "fresh_remote\<lparr>resources :=
     [\<lparr>res_id = AGENT_ID, res_name = AGENT_NAME, res_description = description_line,
       res_blueprint = AGENT_BLUEPRINT, res_state = CREATED\<rparr>]\<rparr>"
  let ?running = "fresh_remote\<lparr>resources :=
     [\<lparr>res_id = AGENT_ID, res_name = AGENT_NAME, res_description = description_line,
       res_blueprint = AGENT_BLUEPRINT, res_state = RUNNING\<rparr>]\<rparr>"
  let ?info = "\<lparr>info_state = Some RUNNING,
     info_tools = Some (map tool_name (tools AGENT_BLUEPRINT)),
     info_strategy_name = Some (strategy_name (strategy AGENT_BLUEPRINT))\<rparr>"
  have c: "connect spec_backend (host ?cfg) fresh_remote = (None, fresh_remote)"
    by (simp add: spec_defs fresh_remote_def)
  have l: "load spec_backend (agent_id ?cfg) fresh_remote = (Inl NotFoundError, fresh_remote)"
    by (simp add: spec_defs fresh_remote_def)
  have la: "list_agents spec_backend fresh_remote = (Inr [], fresh_remote)"
    by (simp add: spec_defs fresh_remote_def)
  have cr: "create spec_backend (blueprint ?cfg) (agent_id ?cfg) (agent_name ?cfg)
              (agent_description ?cfg) fresh_remote = (Inr AGENT_ID, ?created)"
    by (simp add: spec_defs fresh_remote_def script_config_def AGENT_BLUEPRINT_def)
  have ss: "set_state spec_backend AGENT_ID RUNNING ?created = (None, ?running)"
    by (simp add: spec_defs fresh_remote_def)
  have gi: "get_info spec_backend AGENT_ID ?running = (Inr ?info, ?running)"
    by (simp add: spec_defs fresh_remote_def)
  have sl: "spec_load AGENT_ID fresh_remote = (Inl NotFoundError, fresh_remote)"
    using l by (simp add: spec_backend_def script_config_def)
  have cl: "close spec_backend ?running = ?running"
    by (simp add: spec_backend_def)
  from absent_agent_tolerated [OF c l la cr ss gi]
  have "exit_code (main_cfg ?cfg spec_backend fresh_remote) = 0"
    and "trace (main_cfg ?cfg spec_backend fresh_remote) =
           [EConnect (host ?cfg) None,
            ELoad (agent_id ?cfg) (Inl NotFoundError),
            EListAgents (Inr []),
            ECreate (blueprint ?cfg) (agent_id ?cfg) (agent_name ?cfg) (agent_description ?cfg)
              (Inr AGENT_ID),
            ESetState AGENT_ID RUNNING None,
            EGetInfo AGENT_ID (Inr ?info),
            EClose]"
    and "world (main_cfg ?cfg spec_backend fresh_remote) = close spec_backend ?running"
    and "MsgError \<notin> set (printed (main_cfg ?cfg spec_backend fresh_remote))"
    by blast+
  then show ?thesis
    using sl cl by (simp add: main_def)
qed

subsection \<open>A failing \<open>set_state\<close>\<close>

text \<open>
  Claim C6. If \<open>set_state\<close> to RUNNING raises on the handle that \<open>create\<close> returned,
  the run reports the exception (line 373, exit code 1) and the calls from the
  \<open>create\<close> on are \<open>create\<close>, the failed \<open>set_state\<close> and the closing of the
  connection: nothing is deleted and nothing else changes the backend. This holds
  for every backend. On the backend of the specification, the resource under the id
  is then the one just created, and its state is CREATED.
\<close>

theorem set_state_failure_leaves_created:
  "(ESetState h RUNNING (Some e) \<in> set (trace (main_cfg cfg be w)) \<longrightarrow>
      exit_code (main_cfg cfg be w) = 1 \<and>
      MsgErrorText e \<in> set (printed (main_cfg cfg be w)) \<and>
      calls_after
        (ECreate (blueprint cfg) (agent_id cfg) (agent_name cfg) (agent_description cfg) (Inr h))
        (trace (main_cfg cfg be w)) = [ESetState h RUNNING (Some e), EClose])
   \<and> (ESetState h RUNNING (Some e) \<in> set (trace (main_cfg cfg spec_backend sw)) \<longrightarrow>
      map res_state
        (filter (\<lambda>x. res_id x = agent_id cfg)
           (resources (world (main_cfg cfg spec_backend sw)))) = [CREATED])"
proof (intro conjI impI)
  assume b: "ESetState h RUNNING (Some e) \<in> set (trace (main_cfg cfg spec_backend sw))"
  show "map res_state
        (filter (\<lambda>x. res_id x = agent_id cfg)
           (resources (world (main_cfg cfg spec_backend sw)))) = [CREATED]"
    by (insert b, rule main_cfg_cases[of spec_backend cfg sw]; (erule cleanup_cases)?;
        auto simp: spec_backend_def dest!: spec_create_returned spec_set_state_raised)
next
  assume a: "ESetState h RUNNING (Some e) \<in> set (trace (main_cfg cfg be w))"
  show "exit_code (main_cfg cfg be w) = 1"
    by (insert a, rule main_cfg_cases[of be cfg w]; (erule cleanup_cases)?; auto)
  show "MsgErrorText e \<in> set (printed (main_cfg cfg be w))"
    by (insert a, rule main_cfg_cases[of be cfg w]; (erule cleanup_cases)?;
        auto simp: error_lines_def)
  show "calls_after
        (ECreate (blueprint cfg) (agent_id cfg) (agent_name cfg) (agent_description cfg) (Inr h))
        (trace (main_cfg cfg be w)) = [ESetState h RUNNING (Some e), EClose]"
    by (insert a, rule main_cfg_cases[of be cfg w]; (erule cleanup_cases)?;
        auto simp: calls_after_def)
qed

theorem set_state_failure_witness:
  "ESetState AGENT_ID RUNNING (Some ConnectionError)
     \<in> set (trace (main description_line spec_backend outage_at_set_state)) \<and>
   exit_code (main description_line spec_backend outage_at_set_state) = 1 \<and>
   map res_state
     (filter (\<lambda>x. res_id x = AGENT_ID)
        (resources (world (main description_line spec_backend outage_at_set_state)))) =
     [CREATED]"
proof -
  have h: "ESetState AGENT_ID RUNNING (Some ConnectionError)
     \<in> set (trace (main_cfg (script_config description_line) spec_backend
                     outage_at_set_state))"
    by (simp add: run_defs)
  show ?thesis
    using h set_state_failure_leaves_created
      [of AGENT_ID ConnectionError "script_config description_line" spec_backend
          outage_at_set_state outage_at_set_state]
    by (simp add: main_def script_config_def)
qed

subsection \<open>What \<open>main\<close> returns\<close>

text \<open>
  Claim C7 says that the result of the final \<open>get_info\<close> is returned to the caller.
  \<open>main\<close> returns the integer of line 369. The script with all five tools and the
  script with the first two return the same value, while the snapshots that
  \<open>get_info\<close> returned differ.
\<close>

theorem info_not_returned_counterexample:
  "exit_code (main description_line spec_backend fresh_remote) = 0 \<and>
   exit_code (main_cfg (two_tools_config description_line) spec_backend fresh_remote) = 0 \<and>
   EGetInfo AGENT_ID
     (Inr \<lparr>info_state = Some RUNNING,
           info_tools = Some [''solana_rpc'', ''transaction_tracer'', ''mixer_detector'',
                              ''twitter_research'', ''thread_generator''],
           info_strategy_name = Some ''juliaxbt_investigation''\<rparr>)
     \<in> set (trace (main description_line spec_backend fresh_remote)) \<and>
   EGetInfo AGENT_ID
     (Inr \<lparr>info_state = Some RUNNING,
           info_tools = Some [''solana_rpc'', ''transaction_tracer''],
           info_strategy_name = Some ''juliaxbt_investigation''\<rparr>)
     \<in> set (trace (main_cfg (two_tools_config description_line) spec_backend fresh_remote))"
  by (simp add: run_defs)

text \<open>
  Claim C7, as amended. \<open>main\<close> returns 0 or 1 and nothing else. When it returns 0,
  the last call before the connection is closed is a \<open>get_info\<close> that succeeded, on
  the handle on which \<open>set_state\<close> to RUNNING succeeded just before, and the state,
  the number of tools and the strategy name of its result have been printed (lines
  333-335, with the defaults of \<open>.get\<close>): the snapshot is shown, not returned.
\<close>

theorem info_printed_not_returned:
  "exit_code (main_cfg cfg be w) \<in> {0, 1} \<and>
   (exit_code (main_cfg cfg be w) = 0 \<longrightarrow>
      (\<exists>agent info.
         calls_after (ESetState agent RUNNING None) (trace (main_cfg cfg be w)) =
           [EGetInfo agent (Inr info), EClose] \<and>
         MsgInfoState (info_state info) \<in> set (printed (main_cfg cfg be w)) \<and>
         MsgInfoTools (length (case info_tools info of None \<Rightarrow> [] | Some ts \<Rightarrow> ts))
           \<in> set (printed (main_cfg cfg be w)) \<and>
         MsgInfoStrategy (case info_strategy_name info of None \<Rightarrow> ''unknown'' | Some n \<Rightarrow> n)
           \<in> set (printed (main_cfg cfg be w))))"
  by (rule main_cfg_cases[of be cfg w]; (erule cleanup_cases)?;
      simp add: calls_after_def report_lines_def)

theorem info_printed_witness:
  "exit_code (main description_line spec_backend outage_at_load) = 0 \<and>
   (\<exists>agent info.
      calls_after (ESetState agent RUNNING None)
        (trace (main description_line spec_backend outage_at_load)) =
        [EGetInfo agent (Inr info), EClose] \<and>
      MsgInfoState (info_state info)
        \<in> set (printed (main description_line spec_backend outage_at_load)))"
proof -
  have h: "exit_code (main_cfg (script_config description_line) spec_backend outage_at_load)
             = 0"
    by (simp add: run_defs)
  show ?thesis
    using h info_printed_not_returned
      [of "script_config description_line" spec_backend outage_at_load]
    by (auto simp: main_def)
qed

subsection \<open>The marketplace step\<close>

text \<open>
  Claim C8 says that the unimplemented marketplace step yields a result of its own,
  distinct from success. The step is lines 337-343: four prints and a comment. The
  run that reaches it returns 0, the exit code of success, and prints that the setup
  is complete.
\<close>

theorem marketplace_step_counterexample:
  "MsgMarketplaceTodo \<in> set (printed (main description_line spec_backend fresh_remote)) \<and>
   MsgSetupComplete \<in> set (printed (main description_line spec_backend fresh_remote)) \<and>
   exit_code (main description_line spec_backend fresh_remote) = 0"
  by (simp add: run_defs)

text \<open>
  Claim C8, as amended. The marketplace step has no result of its own and calls
  nothing: a run prints the notice of line 342 exactly when it returns 0, and in
  such a run no call lies between the successful \<open>get_info\<close> and the closing of the
  connection. The notice is the only sign that the marketplace publication is yet
  to be implemented.
\<close>

theorem marketplace_notice_with_success:
  "(MsgMarketplaceTodo \<in> set (printed (main_cfg cfg be w)) \<longleftrightarrow>
      exit_code (main_cfg cfg be w) = 0) \<and>
   (exit_code (main_cfg cfg be w) = 0 \<longrightarrow>
      (\<exists>agent info.
         calls_after (EGetInfo agent (Inr info)) (trace (main_cfg cfg be w)) = [EClose]))"
  by (rule main_cfg_cases[of be cfg w]; (erule cleanup_cases)?;
      auto simp: calls_after_def report_lines_def error_lines_def creating_lines_def)

theorem marketplace_notice_witness:
  "exit_code (main_cfg (two_tools_config description_line) spec_backend fresh_remote) = 0 \<and>
   MsgMarketplaceTodo
     \<in> set (printed (main_cfg (two_tools_config description_line) spec_backend fresh_remote)) \<and>
   (\<exists>agent info.
      calls_after (EGetInfo agent (Inr info))
        (trace (main_cfg (two_tools_config description_line) spec_backend fresh_remote)) =
      [EClose])"
proof -
  have h: "exit_code (main_cfg (two_tools_config description_line) spec_backend fresh_remote)
             = 0"
    by (simp add: run_defs)
  show ?thesis
    using h marketplace_notice_with_success
      [of "two_tools_config description_line" spec_backend fresh_remote]
    by simp
qed

subsection \<open>The exit code\<close>

text \<open>
  Claim C9 says that \<open>main\<close> returns 1 whenever one of the backend operations, \<open>load\<close>
  and \<open>delete\<close> among them, raises. On a backend without agents the \<open>load\<close> raises
  \<open>NotFoundError\<close>, and \<open>main\<close> returns 0.
\<close>

theorem load_raises_exit_zero_counterexample:
  "ELoad AGENT_ID (Inl NotFoundError)
     \<in> set (trace (main description_line spec_backend fresh_remote)) \<and>
   failure (ELoad AGENT_ID (Inl NotFoundError) :: (string, string) event)
     = Some NotFoundError \<and>
   exit_code (main description_line spec_backend fresh_remote) = 0"
  by (simp add: run_defs)

text \<open>
  Claim C9, as amended. \<open>main\<close> returns 1 if one of the calls other than \<open>load\<close> and
  \<open>delete\<close> raised (the connection, \<open>list_agents\<close>, \<open>create\<close>, \<open>set_state\<close>,
  \<open>get_info\<close>), and 0 otherwise, whether or not \<open>load\<close> or \<open>delete\<close> raised. The
  result is always one of these two integers: no exception of a backend operation
  leaves \<open>main\<close>.
\<close>

theorem exit_code_decided_by_outer_calls:
  "exit_code (main_cfg cfg be w) =
     (if \<exists>ev \<in> set (trace (main_cfg cfg be w)).
           op_of ev \<notin> {OpLoad, OpDelete} \<and> failure ev \<noteq> None
      then 1 else 0)"
  by (rule main_cfg_cases[of be cfg w]; (erule cleanup_cases)?; simp)

theorem exit_code_witness:
  "(\<exists>ev \<in> set (trace (main description_line spec_backend no_tools_remote)).
      op_of ev \<notin> {OpLoad, OpDelete} \<and> failure ev \<noteq> None) \<and>
   exit_code (main description_line spec_backend no_tools_remote) = 1"
proof -
  have h: "\<exists>ev \<in> set (trace (main_cfg (script_config description_line) spec_backend
                                   no_tools_remote)).
             op_of ev \<notin> {OpLoad, OpDelete} \<and> failure ev \<noteq> None"
    by (simp add: run_defs)
  show ?thesis
    using h exit_code_decided_by_outer_calls
      [of "script_config description_line" spec_backend no_tools_remote]
    by (simp add: main_def)
qed

subsection \<open>At most one \<open>delete\<close> and one \<open>create\<close>\<close>

text \<open>
  Claim C10. In every run \<open>delete\<close> is called at most once and \<open>create\<close> at most
  once, and a \<open>delete\<close> is on the handle that the \<open>load\<close> of the target id has just
  returned: in the trace it follows that successful \<open>load\<close> directly.
\<close>

theorem delete_and_create_at_most_once:
  "length (filter (\<lambda>ev. op_of ev = OpDelete) (trace (main_cfg cfg be w))) \<le> 1 \<and>
   length (filter (\<lambda>ev. op_of ev = OpCreate) (trace (main_cfg cfg be w))) \<le> 1 \<and>
   (\<forall>h d. EDelete h d \<in> set (trace (main_cfg cfg be w)) \<longrightarrow>
      (\<exists>rest. calls_after (ELoad (agent_id cfg) (Inr h)) (trace (main_cfg cfg be w)) =
                 EDelete h d # rest))"
  by (rule main_cfg_cases[of be cfg w]; (erule cleanup_cases)?; simp add: calls_after_def)

text \<open>The second run of the script deletes the agent that the first one created.\<close>

theorem delete_once_witness:
  "EDelete AGENT_ID None \<in> set (trace (main description_line spec_backend published_remote)) \<and>
   (\<exists>rest.
      calls_after (ELoad AGENT_ID (Inr AGENT_ID))
        (trace (main description_line spec_backend published_remote)) =
      EDelete AGENT_ID None # rest)"
proof -
  have h: "EDelete AGENT_ID None
     \<in> set (trace (main_cfg (script_config description_line) spec_backend published_remote))"
    by (simp add: run_defs)
  show ?thesis
    using h delete_and_create_at_most_once
      [of "script_config description_line" spec_backend published_remote]
    by (simp add: main_def script_config_def)
qed

end
